theory Spec2Isabelle
  imports Main "HOL-Library.AList"
begin

section \<open>Strings of the source language\<close>

text \<open>
  A source string is modelled as a \<open>string\<close>: a list of characters, one per code unit.
  The model covers texts whose code units lie below 256; every character class used by the
  source (\<open>[A-Z]\<close>, white space, digits, word characters) is decided on that range.
\<close>

definition isUpperAZ :: "char \<Rightarrow> bool" where
  \<comment> \<open>the character class \<open>[A-Z]\<close>\<close>
  "isUpperAZ c = (c \<in> set ''ABCDEFGHIJKLMNOPQRSTUVWXYZ'')"

definition isLowerAZ :: "char \<Rightarrow> bool" where
  "isLowerAZ c = (c \<in> set ''abcdefghijklmnopqrstuvwxyz'')"

definition isDigit :: "char \<Rightarrow> bool" where
  "isDigit c = (c \<in> set ''0123456789'')"

definition isWordChar :: "char \<Rightarrow> bool" where
  \<comment> \<open>the character class \<open>\w\<close>\<close>
  "isWordChar c = (isUpperAZ c \<or> isLowerAZ c \<or> isDigit c \<or> c = CHR ''_'')"

definition isWhiteSpace :: "char \<Rightarrow> bool" where
  \<comment> \<open>what \<open>trim\<close>, \<open>parseInt\<close> and \<open>\s\<close> skip: TAB, LF, VT, FF, CR, SP, NBSP\<close>
  "isWhiteSpace c = (c \<in> set [CHR 0x09, CHR 0x0A, CHR 0x0B, CHR 0x0C, CHR 0x0D, CHR 0x20, CHR 0xA0])"

definition trim :: "string \<Rightarrow> string" where
  "trim s = rev (dropWhile isWhiteSpace (rev (dropWhile isWhiteSpace s)))"

fun split_where :: "(char \<Rightarrow> bool) \<Rightarrow> string \<Rightarrow> string list" where
  \<comment> \<open>\<open>s.split(sep)\<close> for a separator that matches exactly one character\<close>
  "split_where P [] = [[]]"
| "split_where P (c # cs) =
     (if P c then [] # split_where P cs
      else (case split_where P cs of
              [] \<Rightarrow> [[c]]
            | w # ws \<Rightarrow> (c # w) # ws))"

definition split_on :: "char \<Rightarrow> string \<Rightarrow> string list" where
  "split_on sep s = split_where (\<lambda>c. c = sep) s"

fun join_on :: "char \<Rightarrow> string list \<Rightarrow> string" where
  \<comment> \<open>\<open>xs.join(sep)\<close>\<close>
  "join_on sep [] = []"
| "join_on sep [x] = x"
| "join_on sep (x # y # ys) = x @ sep # join_on sep (y # ys)"

definition nth_opt :: "'a list \<Rightarrow> nat \<Rightarrow> 'a option" where
  \<comment> \<open>\<open>f[i]\<close>: \<open>undefined\<close> (here \<open>None\<close>) outside the array\<close>
  "nth_opt xs i = (if i < length xs then Some (xs ! i) else None)"

definition str_includes :: "string \<Rightarrow> string \<Rightarrow> bool" where
  \<comment> \<open>\<open>s.includes(t)\<close>\<close>
  "str_includes s t = (\<exists>i \<in> set [0 ..< Suc (length s)]. take (length t) (drop i s) = t)"

fun or_else :: "string option \<Rightarrow> string \<Rightarrow> string" where
  \<comment> \<open>\<open>x || d\<close> for a string or \<open>undefined\<close>: the empty string is falsy\<close>
  "or_else None d = d"
| "or_else (Some s) d = (if s = [] then d else s)"

section \<open>State codes\<close>

type_synonym JobState = string

definition STATE_MAP :: "(string \<times> JobState) list" where
  "STATE_MAP =
    [(''PD'', ''PENDING''), (''R'', ''RUNNING''), (''S'', ''SUSPENDED''), (''CG'', ''COMPLETING''),
     (''CD'', ''COMPLETED''), (''CA'', ''CANCELLED''), (''F'', ''FAILED''), (''TO'', ''TIMEOUT''),
     (''NF'', ''NODE_FAIL''), (''PR'', ''PREEMPTED''), (''OOM'', ''OUT_OF_MEMORY''),
     (''BF'', ''BOOT_FAIL''), (''DL'', ''DEADLINE''), (''RQ'', ''REQUEUED''), (''RS'', ''RESIZING''),
     (''RV'', ''REVOKED''), (''SI'', ''SIGNALING''), (''SE'', ''SPECIAL_EXIT''),
     (''SO'', ''STAGE_OUT''), (''ST'', ''STOPPED'')]"

definition parseJobState :: "string \<Rightarrow> JobState" where
  \<comment> \<open>\<open>STATE_MAP[code.split(/[^A-Z]/)[0]] || code\<close>. The key consists of letters of
      \<open>[A-Z]\<close> only, so no inherited property of the table object can be hit.\<close>
  "parseJobState code =
     (case nth_opt (split_where (\<lambda>c. \<not> isUpperAZ c) code) 0 of
        None \<Rightarrow> code
      | Some key \<Rightarrow> or_else (map_of STATE_MAP key) code)"

definition leading_alphabetic_run :: "string \<Rightarrow> string" where
  \<comment> \<open>the specification's wording: the leading run of letters, of either case\<close>
  "leading_alphabetic_run code = takeWhile (\<lambda>c. isUpperAZ c \<or> isLowerAZ c) code"


section \<open>Numbers\<close>

text \<open>
  A source number is an integer or \<open>NaN\<close>. The integers are the mathematical ones: the
  rounding of values beyond \<open>2^53\<close> is outside the model.
\<close>

datatype number = Num int | NaN

definition digit_val :: "char \<Rightarrow> nat" where
  "digit_val c = length (takeWhile (\<lambda>d. d \<noteq> c) ''0123456789'')"

definition digits_val :: "string \<Rightarrow> nat" where
  "digits_val ds = foldl (\<lambda>a c. 10 * a + digit_val c) 0 ds"

definition parseInt :: "string \<Rightarrow> number" where
  \<comment> \<open>\<open>parseInt(s, 10)\<close>: skip white space, read a sign, read the decimal digits\<close>
  "parseInt s =
     (let t = dropWhile isWhiteSpace s;
          neg = (case t of [] \<Rightarrow> False | c # _ \<Rightarrow> c = CHR ''-'');
          u = (case t of [] \<Rightarrow> [] | c # r \<Rightarrow> if c = CHR ''+'' \<or> c = CHR ''-'' then r else t);
          z = takeWhile isDigit u
      in if z = [] then NaN
         else Num ((if neg then - 1 else 1) * int (digits_val z)))"

fun num_or :: "number \<Rightarrow> number \<Rightarrow> number" where
  \<comment> \<open>\<open>x || d\<close> for a number: \<open>NaN\<close> and \<open>0\<close> are falsy\<close>
  "num_or NaN d = d"
| "num_or (Num n) d = (if n = 0 then d else Num n)"

section \<open>Jobs and command results\<close>

text \<open>
  \<open>SlurmJob\<close> with its mandatory fields and the two optional fields the functions below
  read or write; an absent optional field is \<open>None\<close>.
\<close>

record SlurmJob =
  jobId :: string
  name :: string
  partition_j :: string
  state :: JobState
  stateRaw :: string
  timeUsed :: string
  timeLimit :: string
  nodes :: number
  nodelist :: string
  startTime :: string
  endTime :: string
  arrayJobId :: "string option"
  exitCode :: "string option"

record CommandResult =
  success :: bool
  stdout :: string
  stderr :: string
  exitCodeNum :: int

text \<open>
  The configuration, and its value when no setting has been changed (the defaults of
  \<open>loadConfig\<close>). After the commands have run, the parsers read \<open>maxJobsDisplayed\<close> and the
  notifications read the four notification flags. Of the filter only \<open>name\<close> is read after
  the command has run; the other fields shape the command line.
\<close>

record SlurmConfig =
  refreshInterval :: int
  autoRefresh :: bool
  sshHost :: string
  sshUser :: string
  sshKeyPath :: string
  squeueFormat :: string
  showAllUsers :: bool
  partitionFilter :: "string list"
  maxJobsDisplayed :: int
  enableNotifications :: bool
  notifyOnComplete :: bool
  notifyOnFail :: bool
  notifyOnStart :: bool

definition defaultConfig :: SlurmConfig where
  "defaultConfig =
     \<lparr> refreshInterval = 30, autoRefresh = True, sshHost = [], sshUser = [], sshKeyPath = [],
       squeueFormat = ''%i|%j|%P|%T|%M|%l|%D|%R|%S|%e'', showAllUsers = False,
       partitionFilter = [], maxJobsDisplayed = 100, enableNotifications = True,
       notifyOnComplete = True, notifyOnFail = True, notifyOnStart = False \<rparr>"

record JobFilter =
  user_f :: "string option"
  partition_f :: "string list option"
  state_f :: "string list option"
  name_f :: "string option"
  jobIds_f :: "string list option"

datatype error = Error string

definition slice0 :: "'a list \<Rightarrow> int \<Rightarrow> 'a list" where
  \<comment> \<open>\<open>xs.slice(0, e)\<close>: a negative end counts from the back\<close>
  "slice0 xs e =
     (if e < 0 then take (nat (max (int (length xs) + e) 0)) xs
      else take (nat e) xs)"

definition field_trim :: "string list \<Rightarrow> nat \<Rightarrow> string \<Rightarrow> string" where
  \<comment> \<open>\<open>f[i]?.trim() || d\<close>\<close>
  "field_trim f i d = or_else (map_option trim (nth_opt f i)) d"

definition nonBlank :: "string \<Rightarrow> bool" where
  \<comment> \<open>the line filter \<open>l => l.trim()\<close>: a line is kept when its trimmed text is non-empty\<close>
  "nonBlank l = (trim l \<noteq> [])"

definition parseQueueLine :: "string \<Rightarrow> SlurmJob" where
  \<comment> \<open>the body of the \<open>map\<close> in \<open>getJobs\<close>\<close>
  "parseQueueLine line =
     (let f = split_on CHR ''|'' line in
      \<lparr> jobId = field_trim f 0 [], name = field_trim f 1 [], partition_j = field_trim f 2 [],
        state = parseJobState (field_trim f 3 []), stateRaw = field_trim f 3 [],
        timeUsed = field_trim f 4 [], timeLimit = field_trim f 5 [],
        nodes = parseInt (field_trim f 6 ''0''), nodelist = field_trim f 7 [],
        startTime = field_trim f 8 [], endTime = field_trim f 9 [],
        arrayJobId = None, exitCode = None \<rparr>)"

text \<open>
  \<open>getJobs\<close> from the point where the command has returned \<open>result\<close>. The regular
  expression engine is a parameter: \<open>regexp p\<close> is \<open>Inl msg\<close> when \<open>new RegExp(p, 'i')\<close>
  throws an error with message \<open>msg\<close>, and otherwise the \<open>test\<close> function of the compiled
  pattern.
\<close>

definition getJobs ::
  "(string \<Rightarrow> string + (string \<Rightarrow> bool)) \<Rightarrow> SlurmConfig \<Rightarrow> JobFilter \<Rightarrow> CommandResult
     \<Rightarrow> error + SlurmJob list" where
  "getJobs regexp config flt result =
     (if \<not> success result then Inl (Error (''Failed to get jobs: '' @ stderr result))
      else if stdout result = [] then Inr []
      else
        let jobs = map parseQueueLine
                     (filter nonBlank (split_on CHR 0x0A (stdout result)))
        in (case name_f flt of
              None \<Rightarrow> Inr (slice0 jobs (maxJobsDisplayed config))
            | Some p \<Rightarrow>
                if p = [] then Inr (slice0 jobs (maxJobsDisplayed config))
                else (case regexp p of
                        Inl msg \<Rightarrow> Inl (Error msg)
                      | Inr test \<Rightarrow>
                          Inr (slice0 (filter (\<lambda>j. test (name j)) jobs)
                                 (maxJobsDisplayed config)))))"




text \<open>
  \<open>executeCommand\<close>: the awaited \<open>execAsync\<close> either resolves with the two output texts or
  rejects with an error, which carries a message and may carry the output texts and an exit
  code. A code that is not a number is outside the model.
\<close>

record ExecError =
  err_stdout :: "string option"
  err_stderr :: "string option"
  err_message :: string
  err_code :: "int option"

datatype ExecOutcome = Resolved string string | Rejected ExecError

fun executeCommand :: "ExecOutcome \<Rightarrow> CommandResult" where
  "executeCommand (Resolved out err) =
     \<lparr> success = True, stdout = trim out, stderr = trim err, exitCodeNum = 0 \<rparr>"
| "executeCommand (Rejected e) =
     \<lparr> success = False,
       stdout = or_else (map_option trim (err_stdout e)) [],
       stderr = or_else (map_option trim (err_stderr e)) (err_message e),
       exitCodeNum = (case err_code e of None \<Rightarrow> 1 | Some c \<Rightarrow> if c = 0 then 1 else c) \<rparr>"

definition cancelJob :: "string \<Rightarrow> ExecOutcome \<Rightarrow> error + bool" where
  \<comment> \<open>\<open>outcome\<close> is what running \<open>scancel\<close> gave\<close>
  "cancelJob job_id outcome =
     (let result = executeCommand outcome in
      if \<not> success result \<and> stderr result \<noteq> []
      then Inl (Error (''Failed to cancel job '' @ job_id @ '': '' @ stderr result))
      else Inr True)"

section \<open>The detailed dump\<close>

definition split0 :: "char \<Rightarrow> string \<Rightarrow> string" where
  \<comment> \<open>\<open>s.split(sep)[0]\<close>\<close>
  "split0 sep s = (case nth_opt (split_on sep s) 0 of None \<Rightarrow> [] | Some w \<Rightarrow> w)"

definition lowerAZ :: "char \<Rightarrow> char" where
  \<comment> \<open>case folding of the \<open>i\<close> flag on the letters of the keys\<close>
  "lowerAZ c =
     (case map_of (zip ''ABCDEFGHIJKLMNOPQRSTUVWXYZ'' ''abcdefghijklmnopqrstuvwxyz'') c of
        None \<Rightarrow> c
      | Some l \<Rightarrow> l)"

definition match_key :: "string \<Rightarrow> string \<Rightarrow> string option" where
  \<comment> \<open>the literal prefix \<open>k=\<close> of both patterns, at the start of \<open>s\<close>: the text after it\<close>
  "match_key k s =
     (if map lowerAZ (take (length k) s) = map lowerAZ k
         \<and> take 1 (drop (length k) s) = ''=''
      then Some (drop (Suc (length k)) s) else None)"

fun find_first :: "(string \<Rightarrow> 'a option) \<Rightarrow> string \<Rightarrow> 'a option" where
  \<comment> \<open>\<open>o.match(r)\<close>: the match at the leftmost start position that has one\<close>
  "find_first m [] = m []"
| "find_first m (c # cs) = (case m (c # cs) of None \<Rightarrow> find_first m cs | Some r \<Rightarrow> Some r)"

definition get :: "string \<Rightarrow> string \<Rightarrow> string" where
  \<comment> \<open>\<open>o.match(new RegExp(`${k}=([^\\s]+)`, 'i'))?.[1] || ''\<close>\<close>
  "get out k =
     or_else
       (find_first
          (\<lambda>s. case match_key k s of
                  None \<Rightarrow> None
                | Some r \<Rightarrow>
                    (let v = takeWhile (\<lambda>c. \<not> isWhiteSpace c) r
                     in if v = [] then None else Some v))
          out)
       []"

definition lookahead :: "string \<Rightarrow> bool" where
  \<comment> \<open>\<open>(?=\s+\w+=|$)\<close> at the text \<open>r\<close> that remains\<close>
  "lookahead r =
     (r = [] \<or>
      (let r1 = dropWhile isWhiteSpace r; r2 = dropWhile isWordChar r1
       in length r1 < length r \<and> length r2 < length r1 \<and> take 1 r2 = ''=''))"

definition isLineTerminator :: "char \<Rightarrow> bool" where
  "isLineTerminator c = (c = CHR 0x0A \<or> c = CHR 0x0D)"

fun lazy_dots :: "string \<Rightarrow> string \<Rightarrow> string option" where
  \<comment> \<open>\<open>(.+?)\<close> before the lookahead: the shortest non-empty run within the line\<close>
  "lazy_dots acc [] = None"
| "lazy_dots acc (c # cs) =
     (if isLineTerminator c then None
      else if lookahead cs then Some (acc @ [c])
      else lazy_dots (acc @ [c]) cs)"

definition getSpaces :: "string \<Rightarrow> string \<Rightarrow> string" where
  \<comment> \<open>\<open>o.match(new RegExp(`${k}=(.+?)(?=\\s+\\w+=|$)`, 'i'))?.[1]?.trim() || ''\<close>\<close>
  "getSpaces out k =
     or_else
       (map_option trim
          (find_first
             (\<lambda>s. case match_key k s of None \<Rightarrow> None | Some r \<Rightarrow> lazy_dots [] r)
             out))
       []"

definition getInt :: "string \<Rightarrow> string \<Rightarrow> number" where
  \<comment> \<open>\<open>parseInt(get(k), 10) || 0\<close>\<close>
  "getInt out k = num_or (parseInt (get out k)) (Num 0)"

datatype jsval = S string | N number | B bool

text \<open>
  The object that \<open>getJobDetails\<close> returns, as the list of its properties in the order of
  the object literal.
\<close>

type_synonym SlurmJobDetails = "(string \<times> jsval) list"

definition jobDetailsOf :: "string \<Rightarrow> SlurmJobDetails" where
  "jobDetailsOf out =
     (let stateRaw = get out ''JobState'' in
      [(''jobId'', S (get out ''JobId'')), (''name'', S (get out ''JobName'')),
       (''partition'', S (get out ''Partition'')),
       (''state'', S (parseJobState stateRaw)), (''stateRaw'', S stateRaw),
       (''user'', S (split0 CHR ''('' (get out ''UserId''))),
       (''account'', S (get out ''Account'')), (''qos'', S (get out ''QOS'')),
       (''priority'', N (getInt out ''Priority'')), (''dependency'', S (get out ''Dependency'')),
       (''submitTime'', S (get out ''SubmitTime'')),
       (''eligibleTime'', S (get out ''EligibleTime'')),
       (''startTime'', S (get out ''StartTime'')), (''endTime'', S (get out ''EndTime'')),
       (''deadline'', S (get out ''Deadline'')), (''preemptTime'', S (get out ''PreemptTime'')),
       (''suspendTime'', S (get out ''SuspendTime'')),
       (''accruedTime'', S (get out ''AccrueTime'')),
       (''lastSchedEval'', S (get out ''LastSchedEval'')),
       (''timeUsed'', S (get out ''RunTime'')), (''runTime'', S (get out ''RunTime'')),
       (''timeLimit'', S (get out ''TimeLimit'')),
       (''timeLimitRaw'', N (getInt out ''TimeLimitRaw'')),
       (''nodes'', N (getInt out ''NumNodes'')), (''numNodes'', N (getInt out ''NumNodes'')),
       (''numCPUs'', N (getInt out ''NumCPUs'')), (''numTasks'', N (getInt out ''NumTasks'')),
       (''cpusPerTask'', N (num_or (getInt out ''CPUs/Task'') (Num 1))),
       (''cpus'', N (getInt out ''NumCPUs'')),
       (''nodelist'', S (get out ''NodeList'')),
       (''allocNode'', S (split0 CHR '':'' (get out ''AllocNode:Sid''))),
       (''reqNodes'', S (get out ''ReqNodes'')), (''excludeNodes'', S (get out ''ExcNodeList'')),
       (''features'', S (get out ''Features'')),
       (''minMemoryNode'', S (get out ''MinMemoryNode'')),
       (''minMemoryCPU'', S (get out ''MinMemoryCPU'')),
       (''minTmpDisk'', S (get out ''MinTmpDiskNode'')),
       (''memory'', S (or_else (Some (get out ''MinMemoryNode'')) (get out ''MinMemoryCPU''))),
       (''gres'', S (or_else (Some (get out ''Gres'')) (get out ''TresPerNode''))),
       (''tres'', S (get out ''TRES'')),
       (''workDir'', S (getSpaces out ''WorkDir'')), (''command'', S (getSpaces out ''Command'')),
       (''stdinPath'', S (getSpaces out ''StdIn'')),
       (''stdoutPath'', S (getSpaces out ''StdOut'')),
       (''stderrPath'', S (getSpaces out ''StdErr'')),
       (''stdout'', S (getSpaces out ''StdOut'')), (''stderr'', S (getSpaces out ''StdErr'')),
       (''batchHost'', S (get out ''BatchHost'')),
       (''batchFlag'', B (get out ''BatchFlag'' = ''1'')),
       (''requeue'', B (get out ''Requeue'' = ''1'')),
       (''restarts'', N (getInt out ''Restarts'')),
       (''exitCode'', S (get out ''ExitCode'')),
       (''derivedExitCode'', S (get out ''DerivedExitCode'')),
       (''comment'', S (get out ''Comment'')), (''wckey'', S (get out ''WcKey'')),
       (''power'', S (get out ''Power'')),
       (''ntPerNode'', S (get out ''NtasksPerN:B:S:C'')),
       (''ntPerBoard'', S []), (''ntPerSocket'', S []), (''ntPerCore'', S []),
       (''coreSpec'', S (get out ''CoreSpec'')),
       (''submitLine'', S (or_else (Some (getSpaces out ''SubmitLine'')) (getSpaces out ''Command''))),
       (''arrayJobId'', S (get out ''ArrayJobId'')),
       (''arrayTaskId'', S (get out ''ArrayTaskId''))])"

definition getJobDetails :: "CommandResult \<Rightarrow> SlurmJobDetails option" where
  \<comment> \<open>\<open>null\<close> is \<open>None\<close>\<close>
  "getJobDetails result =
     (if \<not> success result \<or> stdout result = [] \<or> str_includes (stdout result) ''Invalid job id''
      then None
      else Some (jobDetailsOf (stdout result)))"

section \<open>The jobs tree\<close>

datatype TreeItemCollapsibleState = NoneState | Collapsed | Expanded

text \<open>
  A \<open>JobTreeItem\<close> with the arguments of its constructor, its label and its id. The icon,
  the description and the tooltip are presentation strings computed from these and are left
  out.
\<close>

record JobTreeItem =
  label :: string
  item_id :: string
  job :: SlurmJob
  collapsibleState :: TreeItemCollapsibleState
  isArrayParent :: bool
  arrayTasks :: "SlurmJob list"

definition newJobTreeItem ::
  "SlurmJob \<Rightarrow> TreeItemCollapsibleState \<Rightarrow> bool \<Rightarrow> SlurmJob list \<Rightarrow> JobTreeItem" where
  "newJobTreeItem j cs parent tasks =
     \<lparr> label = or_else (Some (name j)) (jobId j),
       item_id = (if parent then ''array-'' @ or_else (arrayJobId j) (jobId j) else jobId j),
       job = j, collapsibleState = cs, isArrayParent = parent, arrayTasks = tasks \<rparr>"

definition jobTreeItem :: "SlurmJob \<Rightarrow> JobTreeItem" where
  \<comment> \<open>\<open>new JobTreeItem(j)\<close>, with the default arguments\<close>
  "jobTreeItem j = newJobTreeItem j NoneState False []"

record CategoryTreeItem =
  cat_state :: JobState
  cat_count :: nat

datatype TreeItem =
    PlainItem string string
  | JobItem JobTreeItem
  | CategoryItem CategoryTreeItem

record SlurmJobsProvider =
  jobs :: "SlurmJob list"
  groupByState :: bool
  groupArrayJobs :: bool
  lastError :: "string option"
  isLoading :: bool
  filter_p :: JobFilter

definition toggleGrouping :: "SlurmJobsProvider \<Rightarrow> SlurmJobsProvider" where
  "toggleGrouping p = p\<lparr>groupByState := \<not> groupByState p\<rparr>"

definition toggleArrayGrouping :: "SlurmJobsProvider \<Rightarrow> SlurmJobsProvider" where
  "toggleArrayGrouping p = p\<lparr>groupArrayJobs := \<not> groupArrayJobs p\<rparr>"

text \<open>
  A \<open>Map\<close> is an association list in insertion order: \<open>m.get(k)\<close> is \<open>map_of m k\<close>, and
  \<open>m.set(k, v)\<close> is \<open>AList.update k v m\<close>, which replaces the value of a present key where
  it stands and appends a new key at the end.
\<close>

definition get_or0 :: "(JobState \<times> nat) list \<Rightarrow> JobState \<Rightarrow> nat" where
  \<comment> \<open>\<open>m.get(k) || 0\<close>\<close>
  "get_or0 m k = (case map_of m k of None \<Rightarrow> 0 | Some c \<Rightarrow> c)"

definition count_step :: "(JobState \<times> nat) list \<Rightarrow> SlurmJob \<Rightarrow> (JobState \<times> nat) list" where
  \<comment> \<open>the reducer \<open>(m, j) => m.set(j.state, (m.get(j.state) || 0) + 1)\<close>\<close>
  "count_step m j = AList.update (state j) (get_or0 m (state j) + 1) m"

definition getJobCounts :: "SlurmJobsProvider \<Rightarrow> (JobState \<times> nat) list" where
  "getJobCounts p = foldl count_step [] (jobs p)"

definition category_order :: "JobState list" where
  "category_order =
     [''RUNNING'', ''PENDING'', ''COMPLETING'', ''COMPLETED'', ''FAILED'', ''CANCELLED'',
      ''TIMEOUT'']"

definition getCategoryItems :: "SlurmJobsProvider \<Rightarrow> CategoryTreeItem list" where
  "getCategoryItems p =
     (let counts = getJobCounts p;
          items = map (\<lambda>s. \<lparr>cat_state = s, cat_count = get_or0 counts s\<rparr>)
                    (filter (\<lambda>s. get_or0 counts s \<noteq> 0) category_order);
          otherCount = foldl (\<lambda>sum (s, c). sum + c) 0
                         (filter (\<lambda>(s, c). s \<notin> set category_order) counts)
      in if 0 < otherCount then items @ [\<lparr>cat_state = ''OTHER'', cat_count = otherCount\<rparr>]
         else items)"

definition arrayIdOf :: "SlurmJob \<Rightarrow> string option" where
  \<comment> \<open>\<open>job.jobId.includes('_') ? job.jobId.split('_')[0] : job.arrayJobId\<close>, with a falsy
      value (\<open>undefined\<close> or the empty string) as \<open>None\<close>\<close>
  "arrayIdOf j =
     (let a = (if str_includes (jobId j) ''_'' then Some (split0 CHR ''_'' (jobId j))
               else arrayJobId j)
      in case a of None \<Rightarrow> None | Some i \<Rightarrow> if i = [] then None else Some i)"

definition tasks_of :: "(string \<times> SlurmJob list) list \<Rightarrow> string \<Rightarrow> SlurmJob list" where
  "tasks_of groups a = (case map_of groups a of None \<Rightarrow> [] | Some ts \<Rightarrow> ts)"

definition group_step ::
  "(string \<times> SlurmJob list) list \<times> SlurmJob list \<Rightarrow> SlurmJob
     \<Rightarrow> (string \<times> SlurmJob list) list \<times> SlurmJob list" where
  \<comment> \<open>one round of the loop over the jobs: the groups and the regular jobs so far\<close>
  "group_step acc j =
     (case acc of (groups, regular) \<Rightarrow>
        (case arrayIdOf j of
           Some a \<Rightarrow>
             (let groups1 = (if map_of groups a = None then AList.update a [] groups else groups)
              in (AList.update a (tasks_of groups1 a @ [j]) groups1, regular))
         | None \<Rightarrow> (groups, regular @ [j])))"

definition group_item :: "string \<times> SlurmJob list \<Rightarrow> JobTreeItem" where
  \<comment> \<open>one round of the loop over the groups; a group is never empty, so \<open>tasks[0]\<close> exists\<close>
  "group_item g =
     (case g of (a, tasks) \<Rightarrow>
        if length tasks = 1 then jobTreeItem (hd tasks)
        else newJobTreeItem ((hd tasks)\<lparr>arrayJobId := Some a\<rparr>) Collapsed True tasks)"

definition getJobItems :: "SlurmJobsProvider \<Rightarrow> SlurmJob list \<Rightarrow> JobTreeItem list" where
  "getJobItems p js =
     (if \<not> groupArrayJobs p then map jobTreeItem js
      else (case foldl group_step ([], []) js of
              (groups, regular) \<Rightarrow> map group_item groups @ map jobTreeItem regular))"

definition getChildrenOf :: "SlurmJobsProvider \<Rightarrow> TreeItem option \<Rightarrow> TreeItem list" where
  \<comment> \<open>\<open>getChildren\<close> past its loading and error items\<close>
  "getChildrenOf p element =
     (case element of
        None \<Rightarrow>
          if jobs p = [] then [PlainItem ''No jobs found'' ''info'']
          else if groupByState p then map CategoryItem (getCategoryItems p)
          else map JobItem (getJobItems p (jobs p))
      | Some (JobItem it) \<Rightarrow>
          if isArrayParent it then map (\<lambda>t. JobItem (jobTreeItem t)) (arrayTasks it)
          else []
      | Some (CategoryItem c) \<Rightarrow>
          map JobItem (getJobItems p (filter (\<lambda>j. state j = cat_state c) (jobs p)))
      | Some (PlainItem l i) \<Rightarrow> [])"

definition getChildren :: "SlurmJobsProvider \<Rightarrow> TreeItem option \<Rightarrow> TreeItem list" where
  "getChildren p element =
     (if isLoading p then [PlainItem ''Loading...'' ''loading~spin'']
      else (case lastError p of
              None \<Rightarrow> getChildrenOf p element
            | Some e \<Rightarrow>
                if e \<noteq> [] then [PlainItem (''Error: '' @ e) ''error'']
                else getChildrenOf p element))"

text \<open>
  \<open>refresh\<close>: \<open>fetched\<close> is the outcome of the awaited call, \<open>Inl (Error msg)\<close> when it
  throws an error with message \<open>msg\<close>.
\<close>

definition refresh_with :: "SlurmJobsProvider \<Rightarrow> error + SlurmJob list \<Rightarrow> SlurmJobsProvider" where
  "refresh_with p fetched =
     (let p1 = p\<lparr>isLoading := True\<rparr>;
          p2 = (case fetched of
                  Inr js \<Rightarrow> p1\<lparr>jobs := js, lastError := None\<rparr>
                | Inl (Error msg) \<Rightarrow> p1\<lparr>lastError := Some msg, jobs := []\<rparr>)
      in p2\<lparr>isLoading := False\<rparr>)"

definition refresh ::
  "(string \<Rightarrow> string + (string \<Rightarrow> bool)) \<Rightarrow> SlurmConfig \<Rightarrow> SlurmJobsProvider \<Rightarrow> CommandResult
     \<Rightarrow> SlurmJobsProvider" where
  \<comment> \<open>\<open>getMyJobs\<close> and \<open>getJobs\<close> differ in the command line only\<close>
  "refresh regexp config p result = refresh_with p (getJobs regexp config (filter_p p) result)"

definition newProvider :: SlurmJobsProvider where
  \<comment> \<open>the fields of a provider as its constructor leaves them\<close>
  "newProvider =
     \<lparr> jobs = [], groupByState = True, groupArrayJobs = True, lastError = None,
       isLoading = False,
       filter_p = \<lparr>user_f = None, partition_f = None, state_f = None, name_f = None,
                    jobIds_f = None\<rparr> \<rparr>"

definition createMockJob :: "string \<Rightarrow> JobState \<Rightarrow> SlurmJob" where
  \<comment> \<open>the job of the test suite's \<open>createMockJob({jobId, state})\<close>\<close>
  "createMockJob i s =
     \<lparr> jobId = i, name = ''test_job'', partition_j = ''gpu'', state = s, stateRaw = ''R'',
       timeUsed = ''01:30:00'', timeLimit = ''04:00:00'', nodes = Num 1, nodelist = ''node01'',
       startTime = ''2024-01-15T10:00:00'', endTime = ''N/A'', arrayJobId = None,
       exitCode = None \<rparr>"

text \<open>
  What the claims about the tree speak of, stated on the job list itself: the number of
  jobs in a state, the number of jobs in a state outside the fixed order, the jobs that
  share an array id, the array ids in the order of their first job, and the jobs that an
  item of the tree shows (its tasks for an array parent, as \<open>getChildren\<close> expands it, and
  its own job otherwise).
\<close>

definition spec_state_count :: "SlurmJob list \<Rightarrow> JobState \<Rightarrow> nat" where
  "spec_state_count js s = length (filter (\<lambda>j. state j = s) js)"

definition spec_other_count :: "SlurmJob list \<Rightarrow> nat" where
  "spec_other_count js =
     length (filter (\<lambda>j. state j \<notin> set [''RUNNING'', ''PENDING'', ''COMPLETING'', ''COMPLETED'',
                                          ''FAILED'', ''CANCELLED'', ''TIMEOUT'']) js)"

definition spec_array_id :: "SlurmJob \<Rightarrow> string option" where
  \<comment> \<open>the array id of a job in the words of the claim: the text before the first \<open>_\<close> of a
      job id that has one, and otherwise the explicit \<open>arrayJobId\<close>; an empty id is none\<close>
  "spec_array_id j =
     (if CHR ''_'' \<in> set (jobId j)
      then (if takeWhile (\<lambda>c. c \<noteq> CHR ''_'') (jobId j) = [] then None
            else Some (takeWhile (\<lambda>c. c \<noteq> CHR ''_'') (jobId j)))
      else (case arrayJobId j of
              None \<Rightarrow> None
            | Some a \<Rightarrow> if a = [] then None else Some a))"

definition spec_tasks :: "SlurmJob list \<Rightarrow> string \<Rightarrow> SlurmJob list" where
  \<comment> \<open>the jobs that share the array id \<open>a\<close>, in fetched order\<close>
  "spec_tasks js a = filter (\<lambda>j. spec_array_id j = Some a) js"

definition spec_cluster :: "SlurmJob list \<Rightarrow> string \<Rightarrow> SlurmJob list" where
  "spec_cluster js a = filter (\<lambda>j. arrayIdOf j = Some a) js"

definition spec_array_ids :: "SlurmJob list \<Rightarrow> string list" where
  "spec_array_ids js = rev (remdups (rev (List.map_filter arrayIdOf js)))"

definition shown_jobs :: "JobTreeItem \<Rightarrow> SlurmJob list" where
  "shown_jobs it = (if isArrayParent it then arrayTasks it else [job it])"

section \<open>Notifications of state changes\<close>

text \<open>
  A notification that \<open>checkJobStateChanges\<close> raises, with the job id and the job name that
  enter its message (and the state, for a failure), and the message as the window shows it:
  an information message for a start and a completion, a warning for a failure.
\<close>

datatype StateChange =
    Started string string
  | Completed string string
  | Failed string string JobState

datatype Notification = InformationMessage string | WarningMessage string

fun notification :: "StateChange \<Rightarrow> Notification" where
  "notification (Started i n) =
     InformationMessage (''Job '' @ i @ '' ('' @ n @ '') started running'')"
| "notification (Completed i n) =
     InformationMessage (''Job '' @ i @ '' ('' @ n @ '') completed'')"
| "notification (Failed i n s) =
     WarningMessage (''Job '' @ i @ '' ('' @ n @ '') '' @ map lowerAZ s)"













section \<open>Properties of the state normalizer\<close>

lemma split_where_first: "nth_opt (split_where P s) 0 = Some (takeWhile (\<lambda>c. \<not> P c) s)"
  by (induction s) (auto simp: nth_opt_def split: list.splits)

lemma parseJobState_key:
  "parseJobState code = or_else (map_of STATE_MAP (takeWhile isUpperAZ code)) code"
  by (simp add: parseJobState_def split_where_first)

lemma STATE_MAP_values: "map_of STATE_MAP k = Some v \<Longrightarrow> v \<noteq> []"
  by (auto simp: STATE_MAP_def split: if_splits)

text \<open>
  C1, as amended. The key that \<open>parseJobState\<close> looks up is the leading run of upper-case
  letters \<open>A\<close> to \<open>Z\<close> of the code. When that run is a key of the code table (PD, R, S, CG,
  CD, CA, F, TO, NF, PR, OOM, BF, DL, RQ, RS, RV, SI, SE, SO, ST) the result is the mapped
  canonical state; when it is not, the result is the code unchanged. In particular
  \<open>PD (Dependency)\<close> gives PENDING and \<open>CG\<close> gives COMPLETING.
\<close>

theorem parseJobState_uppercase_run:
  "(\<forall>v. map_of STATE_MAP (takeWhile isUpperAZ code) = Some v \<longrightarrow> parseJobState code = v)
   \<and> (map_of STATE_MAP (takeWhile isUpperAZ code) = None \<longrightarrow> parseJobState code = code)
   \<and> map fst STATE_MAP =
       [''PD'', ''R'', ''S'', ''CG'', ''CD'', ''CA'', ''F'', ''TO'', ''NF'', ''PR'', ''OOM'', ''BF'',
        ''DL'', ''RQ'', ''RS'', ''RV'', ''SI'', ''SE'', ''SO'', ''ST'']
   \<and> parseJobState ''PD (Dependency)'' = ''PENDING''
   \<and> parseJobState ''CG'' = ''COMPLETING''"
proof -
  have a: "\<forall>v. map_of STATE_MAP (takeWhile isUpperAZ code) = Some v \<longrightarrow> parseJobState code = v"
    using STATE_MAP_values by (auto simp: parseJobState_key)
  have b: "map_of STATE_MAP (takeWhile isUpperAZ code) = None \<longrightarrow> parseJobState code = code"
    by (simp add: parseJobState_key)
  have c: "map fst STATE_MAP =
       [''PD'', ''R'', ''S'', ''CG'', ''CD'', ''CA'', ''F'', ''TO'', ''NF'', ''PR'', ''OOM'', ''BF'',
        ''DL'', ''RQ'', ''RS'', ''RV'', ''SI'', ''SE'', ''SO'', ''ST'']"
    by (simp add: STATE_MAP_def)
  have d: "parseJobState ''PD (Dependency)'' = ''PENDING''"
    by (simp add: parseJobState_key isUpperAZ_def STATE_MAP_def)
  have e: "parseJobState ''CG'' = ''COMPLETING''"
    by (simp add: parseJobState_key isUpperAZ_def STATE_MAP_def)
  from a b c d e show ?thesis by blast
qed

theorem parseJobState_uppercase_run_witness:
  "map_of STATE_MAP (takeWhile isUpperAZ ''TO (TimeLimit)'') = Some ''TIMEOUT''
   \<and> parseJobState ''TO (TimeLimit)'' = ''TIMEOUT''
   \<and> map_of STATE_MAP (takeWhile isUpperAZ ''RUNNING'') = None
   \<and> parseJobState ''RUNNING'' = ''RUNNING''"
proof -
  have h1: "map_of STATE_MAP (takeWhile isUpperAZ ''TO (TimeLimit)'') = Some ''TIMEOUT''"
    by (simp add: isUpperAZ_def STATE_MAP_def)
  have h2: "map_of STATE_MAP (takeWhile isUpperAZ ''RUNNING'') = None"
    by (simp add: isUpperAZ_def STATE_MAP_def)
  from h1 h2 parseJobState_uppercase_run [of "''TO (TimeLimit)''"]
    parseJobState_uppercase_run [of "''RUNNING''"]
  show ?thesis by blast
qed

text \<open>
  C1 as stated speaks of the leading alphabetic run. The code \<open>Running\<close> has the alphabetic
  run \<open>Running\<close>, which is not a key of the table, and yet it is not returned unchanged: the
  lookup is made on \<open>R\<close>.
\<close>

theorem parseJobState_alphabetic_run_counterexample:
  "map_of STATE_MAP (leading_alphabetic_run ''Running'') = None
   \<and> parseJobState ''Running'' \<noteq> ''Running''"
  by (simp add: leading_alphabetic_run_def parseJobState_key isUpperAZ_def isLowerAZ_def
      STATE_MAP_def)

section \<open>Properties of the queue listing and the accounting rows\<close>

lemma split_where_cons_piece:
  "\<forall>c \<in> set l. \<not> P c \<Longrightarrow> P s \<Longrightarrow> split_where P (l @ s # rest) = l # split_where P rest"
  by (induction l) (auto split: list.splits)

lemma split_where_single: "\<forall>c \<in> set l. \<not> P c \<Longrightarrow> split_where P l = [l]"
  by (induction l) (auto split: list.splits)

lemma split_on_join:
  "ls \<noteq> [] \<Longrightarrow> \<forall>l \<in> set ls. sep \<notin> set l \<Longrightarrow> split_on sep (join_on sep ls) = ls"
proof (induction sep ls rule: join_on.induct)
  case (1 sep)
  then show ?case by simp
next
  case (2 sep x)
  then have "\<forall>c \<in> set x. \<not> c = sep" by auto
  then have "split_where (\<lambda>c. c = sep) x = [x]" by (rule split_where_single)
  then show ?case by (simp add: split_on_def)
next
  case (3 sep x y ys)
  have "split_where (\<lambda>c. c = sep) (x @ sep # join_on sep (y # ys))
        = x # split_where (\<lambda>c. c = sep) (join_on sep (y # ys))"
    using 3 by (intro split_where_cons_piece) auto
  with 3 show ?case by (simp add: split_on_def)
qed

lemma join_on_empty: "join_on sep ls = [] \<Longrightarrow> ls = [] \<or> ls = [[]]"
  by (induction sep ls rule: join_on.induct) auto

lemma nonBlank_empty: "\<not> nonBlank []"
  by (simp add: nonBlank_def trim_def)


lemma slice0_take: "0 \<le> e \<Longrightarrow> slice0 xs e = take (nat e) xs"
  by (simp add: slice0_def)

lemma getJobs_lines:
  assumes "success result" and "name_f flt = None"
    and "\<forall>l \<in> set ls. CHR 0x0A \<notin> set l" and "stdout result = join_on (CHR 0x0A) ls"
  shows "getJobs regexp config flt result =
           Inr (slice0 (map parseQueueLine (filter nonBlank ls)) (maxJobsDisplayed config))"
proof (cases "stdout result = []")
  case True
  with assms(4) have "join_on (CHR 0x0A) ls = []" by simp
  then have "ls = [] \<or> ls = [[]]" by (rule join_on_empty)
  then have "filter nonBlank ls = []" by (auto simp: nonBlank_empty)
  with True assms(1) show ?thesis by (simp add: getJobs_def slice0_def)
next
  case False
  with assms(4) have "ls \<noteq> []" by auto
  with assms(3,4) have "split_on (CHR 0x0A) (stdout result) = ls" by (simp add: split_on_join)
  with False assms(1,2) show ?thesis by (simp add: getJobs_def)
qed







text \<open>
  C2, as amended. For a successful command whose output consists of the lines \<open>ls\<close>, and
  with no name filter, \<open>getJobs\<close> returns one job per non-blank line, in the order of the
  lines, cut to the first \<open>maxJobsDisplayed\<close> of them (a non-negative setting). When the
  non-blank lines number at most \<open>maxJobsDisplayed\<close> the jobs are exactly those of all the
  non-blank lines.
\<close>

theorem getJobs_one_job_per_line:
  assumes "success result" and "name_f flt = None"
    and "\<forall>l \<in> set ls. CHR 0x0A \<notin> set l" and "stdout result = join_on (CHR 0x0A) ls"
    and "0 \<le> maxJobsDisplayed config"
  shows "getJobs regexp config flt result =
           Inr (take (nat (maxJobsDisplayed config)) (map parseQueueLine (filter nonBlank ls)))
         \<and> (int (length (filter nonBlank ls)) \<le> maxJobsDisplayed config \<longrightarrow>
              getJobs regexp config flt result = Inr (map parseQueueLine (filter nonBlank ls)))"
proof -
  have "getJobs regexp config flt result =
          Inr (slice0 (map parseQueueLine (filter nonBlank ls)) (maxJobsDisplayed config))"
    using assms(1-4) by (rule getJobs_lines)
  with assms(5) show ?thesis by (simp add: slice0_take)
qed

theorem getJobs_one_job_per_line_witness:
  "getJobs Inl defaultConfig
     \<lparr>user_f = None, partition_f = None, state_f = None, name_f = None, jobIds_f = None\<rparr>
     \<lparr>success = True, stdout = ''12345|my_job|gpu\<newline>\<newline>12346|other|cpu'', stderr = [],
       exitCodeNum = 0\<rparr>
   = Inr [parseQueueLine ''12345|my_job|gpu'', parseQueueLine ''12346|other|cpu'']"
  using getJobs_one_job_per_line
    [where result = "\<lparr>success = True, stdout = ''12345|my_job|gpu\<newline>\<newline>12346|other|cpu'',
                       stderr = [], exitCodeNum = 0\<rparr>"
       and flt = "\<lparr>user_f = None, partition_f = None, state_f = None, name_f = None,
                    jobIds_f = None\<rparr>"
       and ls = "[''12345|my_job|gpu'', [], ''12346|other|cpu'']"
       and config = defaultConfig and regexp = Inl]
  by (simp add: nonBlank_def trim_def isWhiteSpace_def defaultConfig_def)

text \<open>
  C2 as stated promises N jobs for N well-formed lines. With the default setting of 100 for
  \<open>maxJobsDisplayed\<close>, a listing of 101 lines gives 100 jobs.
\<close>

theorem getJobs_truncates_counterexample:
  "length (replicate 101 ''7'') = 101
   \<and> getJobs Inl defaultConfig
       \<lparr>user_f = None, partition_f = None, state_f = None, name_f = None, jobIds_f = None\<rparr>
       \<lparr>success = True, stdout = join_on (CHR 0x0A) (replicate 101 ''7''), stderr = [],
         exitCodeNum = 0\<rparr>
     = Inr (replicate 100 (parseQueueLine ''7''))"
proof -
  have "getJobs Inl defaultConfig
       \<lparr>user_f = None, partition_f = None, state_f = None, name_f = None, jobIds_f = None\<rparr>
       \<lparr>success = True, stdout = join_on (CHR 0x0A) (replicate 101 ''7''), stderr = [],
         exitCodeNum = 0\<rparr>
     = Inr (slice0 (map parseQueueLine (filter nonBlank (replicate 101 ''7'')))
              (maxJobsDisplayed defaultConfig))"
    by (rule getJobs_lines) simp_all
  moreover have "nonBlank ''7''"
    by (simp add: nonBlank_def trim_def isWhiteSpace_def)
  ultimately show ?thesis by (simp add: slice0_take defaultConfig_def)
qed




section \<open>Properties of the detailed dump and the refresh\<close>

text \<open>
  C7. When the text of the detailed dump contains the marker \<open>Invalid job id\<close>,
  \<open>getJobDetails\<close> yields the not-found result, whatever else the text holds and whatever
  the other fields of the command result are.
\<close>

theorem getJobDetails_invalid_job_id:
  "str_includes (stdout result) ''Invalid job id'' \<Longrightarrow> getJobDetails result = None"
  by (simp add: getJobDetails_def)

theorem getJobDetails_invalid_job_id_witness:
  "str_includes ''JobId=7 JobName=a slurm_load_jobs error: Invalid job id specified''
     ''Invalid job id''
   \<and> getJobDetails
       \<lparr>success = True,
         stdout = ''JobId=7 JobName=a slurm_load_jobs error: Invalid job id specified'',
         stderr = [], exitCodeNum = 0\<rparr> = None"
proof -
  have h: "str_includes ''JobId=7 JobName=a slurm_load_jobs error: Invalid job id specified''
     ''Invalid job id''"
    by code_simp
  from h getJobDetails_invalid_job_id
    [of "\<lparr>success = True,
          stdout = ''JobId=7 JobName=a slurm_load_jobs error: Invalid job id specified'',
          stderr = [], exitCodeNum = 0\<rparr>"]
  show ?thesis by simp
qed

text \<open>
  C8. After a refresh whose fetch throws, the job list of the provider is empty and
  \<open>lastError\<close> holds the message of the failure; this is so in particular when the queue
  command fails. After a refresh whose fetch succeeds, the job list is the fetched one and
  \<open>lastError\<close> is cleared. Either way the provider is no longer loading.
\<close>

theorem refresh_records_error:
  "jobs (refresh_with p (Inl (Error msg))) = []
   \<and> lastError (refresh_with p (Inl (Error msg))) = Some msg
   \<and> jobs (refresh_with p (Inr js)) = js
   \<and> lastError (refresh_with p (Inr js)) = None
   \<and> \<not> isLoading (refresh_with p fetched)
   \<and> (\<not> success result \<longrightarrow>
        jobs (refresh regexp config p result) = []
        \<and> lastError (refresh regexp config p result)
            = Some (''Failed to get jobs: '' @ stderr result))
   \<and> (\<forall>js. getJobs regexp config (filter_p p) result = Inr js \<longrightarrow>
        jobs (refresh regexp config p result) = js
        \<and> lastError (refresh regexp config p result) = None)"
  by (simp add: refresh_with_def refresh_def getJobs_def Let_def)

theorem refresh_records_error_witness:
  "jobs (refresh Inl defaultConfig
           \<lparr>jobs = [parseQueueLine ''1|a|p|R''], groupByState = True, groupArrayJobs = True,
             lastError = None, isLoading = False,
             filter_p = \<lparr>user_f = None, partition_f = None, state_f = None, name_f = None,
                          jobIds_f = None\<rparr>\<rparr>
           \<lparr>success = False, stdout = [], stderr = ''Network timeout'', exitCodeNum = 1\<rparr>) = []
   \<and> lastError (refresh Inl defaultConfig
           \<lparr>jobs = [parseQueueLine ''1|a|p|R''], groupByState = True, groupArrayJobs = True,
             lastError = None, isLoading = False,
             filter_p = \<lparr>user_f = None, partition_f = None, state_f = None, name_f = None,
                          jobIds_f = None\<rparr>\<rparr>
           \<lparr>success = False, stdout = [], stderr = ''Network timeout'', exitCodeNum = 1\<rparr>)
       = Some ''Failed to get jobs: Network timeout''"
  using refresh_records_error
    [where result = "\<lparr>success = False, stdout = [], stderr = ''Network timeout'',
                       exitCodeNum = 1\<rparr>"
       and regexp = Inl and config = defaultConfig
       and p = "\<lparr>jobs = [parseQueueLine ''1|a|p|R''], groupByState = True, groupArrayJobs = True,
             lastError = None, isLoading = False,
             filter_p = \<lparr>user_f = None, partition_f = None, state_f = None, name_f = None,
                          jobIds_f = None\<rparr>\<rparr>"]
  by simp

section \<open>Properties of the jobs tree\<close>

lemma get_or0_update:
  "get_or0 (AList.update k v m) s = (if s = k then v else get_or0 m s)"
  by (simp add: get_or0_def update_conv')

lemma get_or0_step:
  "get_or0 (count_step m j) s = get_or0 m s + (if state j = s then 1 else 0)"
  by (simp add: count_step_def get_or0_update)

lemma get_or0_counts:
  "get_or0 (foldl count_step m js) s = get_or0 m s + length (filter (\<lambda>j. state j = s) js)"
  by (induction js arbitrary: m) (simp_all add: get_or0_step)

lemma total_update:
  "sum_list (map snd (filter (\<lambda>(s, c). P s) (AList.update k (get_or0 m k + 1) m)))
     = sum_list (map snd (filter (\<lambda>(s, c). P s) m)) + (if P k then 1 else 0)"
  by (induction m) (auto simp: get_or0_def)

lemma total_step:
  "sum_list (map snd (filter (\<lambda>(s, c). P s) (count_step m j)))
     = sum_list (map snd (filter (\<lambda>(s, c). P s) m)) + (if P (state j) then 1 else 0)"
  unfolding count_step_def by (rule total_update)

lemma total_counts:
  "sum_list (map snd (filter (\<lambda>(s, c). P s) (foldl count_step m js)))
     = sum_list (map snd (filter (\<lambda>(s, c). P s) m)) + length (filter (\<lambda>j. P (state j)) js)"
  by (induction js arbitrary: m) (simp_all add: total_step)

lemma foldl_sum_snd:
  "foldl (\<lambda>sum (s, c). sum + c) a xs = a + sum_list (map snd (xs :: ('a \<times> nat) list))"
  by (induction xs arbitrary: a) auto

lemma getJobCounts_get: "get_or0 (getJobCounts p) s = spec_state_count (jobs p) s"
proof -
  have "get_or0 [] s = 0" by (simp add: get_or0_def)
  then show ?thesis by (simp add: getJobCounts_def get_or0_counts spec_state_count_def)
qed

lemma getJobCounts_other:
  "foldl (\<lambda>sum (s, c). sum + c) 0
     (filter (\<lambda>(s, c). s \<notin> set category_order) (getJobCounts p)) = spec_other_count (jobs p)"
  by (simp add: foldl_sum_snd getJobCounts_def total_counts spec_other_count_def
      category_order_def)

text \<open>
  C4. The category items carry the exact number of jobs in each state, in the fixed order
  RUNNING, PENDING, COMPLETING, COMPLETED, FAILED, CANCELLED, TIMEOUT; a state with no job
  has no item; and an OTHER item that counts the jobs in every other state follows when
  there is such a job.
\<close>

theorem getCategoryItems_counts:
  "getCategoryItems p =
     map (\<lambda>s. \<lparr>cat_state = s, cat_count = spec_state_count (jobs p) s\<rparr>)
       (filter (\<lambda>s. 0 < spec_state_count (jobs p) s)
          [''RUNNING'', ''PENDING'', ''COMPLETING'', ''COMPLETED'', ''FAILED'', ''CANCELLED'',
           ''TIMEOUT''])
     @ (if 0 < spec_other_count (jobs p)
        then [\<lparr>cat_state = ''OTHER'', cat_count = spec_other_count (jobs p)\<rparr>] else [])"
  unfolding getCategoryItems_def Let_def getJobCounts_get getJobCounts_other
  by (simp add: category_order_def)

theorem getCategoryItems_counts_witness:
  "getCategoryItems
     (newProvider\<lparr>jobs := [createMockJob ''1'' ''RUNNING'', createMockJob ''2'' ''PENDING'',
                            createMockJob ''3'' ''RUNNING'', createMockJob ''4'' ''COMPLETED'',
                            createMockJob ''5'' ''SUSPENDED'']\<rparr>)
   = [\<lparr>cat_state = ''RUNNING'', cat_count = 2\<rparr>, \<lparr>cat_state = ''PENDING'', cat_count = 1\<rparr>,
      \<lparr>cat_state = ''COMPLETED'', cat_count = 1\<rparr>, \<lparr>cat_state = ''OTHER'', cat_count = 1\<rparr>]"
  using getCategoryItems_counts
    [of "newProvider\<lparr>jobs := [createMockJob ''1'' ''RUNNING'', createMockJob ''2'' ''PENDING'',
                            createMockJob ''3'' ''RUNNING'', createMockJob ''4'' ''COMPLETED'',
                            createMockJob ''5'' ''SUSPENDED'']\<rparr>"]
  by (simp add: spec_state_count_def spec_other_count_def createMockJob_def newProvider_def)

lemma update_absent: "k \<notin> fst ` set al \<Longrightarrow> AList.update k v al = al @ [(k, v)]"
  by (induction al) auto

lemma update_last: "k \<notin> fst ` set al \<Longrightarrow> AList.update k v (al @ [(k, w)]) = al @ [(k, v)]"
  by (induction al) auto

lemma set_map_filter: "set (List.map_filter f xs) = {y. \<exists>x \<in> set xs. f x = Some y}"
  by (induction xs) (auto simp: map_filter_simps split: option.splits)

lemma map_filter_snoc:
  "List.map_filter f (xs @ [x]) =
     List.map_filter f xs @ (case f x of None \<Rightarrow> [] | Some y \<Rightarrow> [y])"
  by (induction xs) (auto simp: map_filter_simps split: option.splits)

lemma update_tabulated:
  "distinct ids \<Longrightarrow>
   AList.update k v (map (\<lambda>a. (a, f a)) ids) = map (\<lambda>a. (a, if a = k then v else f a)) ids
     @ (if k \<in> set ids then [] else [(k, v)])"
  by (induction ids) auto

lemma map_of_tabulated:
  "map_of (map (\<lambda>a. (a, f a)) ids) k = (if k \<in> set ids then Some (f k) else None)"
  by (induction ids) auto

lemma arrayIdOf_nonempty: "arrayIdOf j = Some a \<Longrightarrow> a \<noteq> []"
  by (auto simp: arrayIdOf_def Let_def split: option.splits if_splits)

lemma spec_array_ids_distinct: "distinct (spec_array_ids js)"
  by (simp add: spec_array_ids_def)

lemma spec_array_ids_set: "a \<in> set (spec_array_ids js) \<longleftrightarrow> spec_cluster js a \<noteq> []"
  by (auto simp: spec_array_ids_def spec_cluster_def set_map_filter filter_empty_conv)

lemma spec_array_ids_snoc:
  "spec_array_ids (js @ [j]) =
     (case arrayIdOf j of
        None \<Rightarrow> spec_array_ids js
      | Some a \<Rightarrow> if a \<in> set (spec_array_ids js) then spec_array_ids js
                  else spec_array_ids js @ [a])"
  by (auto simp: spec_array_ids_def map_filter_snoc set_map_filter split: option.splits)

lemma group_fold:
  "foldl group_step ([], []) js =
     (map (\<lambda>a. (a, spec_cluster js a)) (spec_array_ids js), filter (\<lambda>j. arrayIdOf j = None) js)"
proof (induction js rule: rev_induct)
  case Nil
  then show ?case by (simp add: spec_array_ids_def map_filter_def)
next
  case (snoc j js)
  show ?case
  proof (cases "arrayIdOf j")
    case None
    then have "\<And>a. spec_cluster (js @ [j]) a = spec_cluster js a"
      by (simp add: spec_cluster_def)
    with None snoc show ?thesis
      by (simp add: group_step_def spec_array_ids_snoc)
  next
    case (Some a)
    let ?ids = "spec_array_ids js"
    let ?g = "map (\<lambda>b. (b, spec_cluster js b)) ?ids"
    have cl: "\<And>b. spec_cluster (js @ [j]) b = (if b = a then spec_cluster js a @ [j] else spec_cluster js b)"
      using Some by (auto simp: spec_cluster_def)
    have reg: "filter (\<lambda>j. arrayIdOf j = None) (js @ [j]) = filter (\<lambda>j. arrayIdOf j = None) js"
      using Some by simp
    show ?thesis
    proof (cases "a \<in> set ?ids")
      case True
      then have m: "map_of ?g a = Some (spec_cluster js a)" by (simp add: map_of_tabulated)
      have "AList.update a (spec_cluster js a @ [j]) ?g
              = map (\<lambda>b. (b, if b = a then spec_cluster js a @ [j] else spec_cluster js b)) ?ids"
        using True by (simp add: update_tabulated spec_array_ids_distinct)
      with True m Some snoc reg show ?thesis
        by (simp add: group_step_def tasks_of_def spec_array_ids_snoc cl)
    next
      case False
      then have m: "map_of ?g a = None" by (simp add: map_of_tabulated)
      from False have e: "spec_cluster js a = []" by (simp add: spec_array_ids_set)
      have u1: "AList.update a [] ?g = map (\<lambda>b. (b, if b = a then [] else spec_cluster js b)) ?ids @ [(a, [])]"
        using False by (simp add: update_tabulated spec_array_ids_distinct)
      have k: "map (\<lambda>b. (b, if b = a then [] else spec_cluster js b)) ?ids = ?g"
        using False by auto
      have u2: "AList.update a [j] (?g @ [(a, [])]) = ?g @ [(a, [j])]"
        using False by (intro update_last) (auto simp: image_iff)
      have t: "tasks_of (?g @ [(a, [])]) a = []"
        using m by (simp add: tasks_of_def map_add_def)
      have "map (\<lambda>b. (b, spec_cluster (js @ [j]) b)) (?ids @ [a]) = ?g @ [(a, [j])]"
        using False e by (auto simp: cl)
      with False m Some snoc reg u1 k u2 t show ?thesis
        by (simp add: group_step_def spec_array_ids_snoc)
    qed
  qed
qed

lemma getJobItems_grouped:
  "groupArrayJobs p \<Longrightarrow>
   getJobItems p js =
     map (\<lambda>a. group_item (a, spec_cluster js a)) (spec_array_ids js)
     @ map jobTreeItem (filter (\<lambda>j. arrayIdOf j = None) js)"
  by (simp add: getJobItems_def group_fold comp_def)

lemma str_includes_char: "str_includes s [c] \<longleftrightarrow> c \<in> set s"
proof
  assume "str_includes s [c]"
  then obtain i where "take (Suc 0) (drop i s) = [c]"
    by (auto simp: str_includes_def)
  then have "c \<in> set (take (Suc 0) (drop i s))" by simp
  then show "c \<in> set s" by (meson in_set_dropD in_set_takeD)
next
  assume "c \<in> set s"
  then obtain i where i: "i < length s" "s ! i = c" by (auto simp: in_set_conv_nth)
  then have "drop i s = c # drop (Suc i) s" by (simp add: Cons_nth_drop_Suc [symmetric])
  with i(1) show "str_includes s [c]" by (auto simp: str_includes_def intro!: bexI [of _ i])
qed

lemma split0_takeWhile: "split0 sep s = takeWhile (\<lambda>c. c \<noteq> sep) s"
  by (simp add: split0_def split_on_def split_where_first)

lemma arrayIdOf_eval:
  "arrayIdOf j =
     (if CHR ''_'' \<in> set (jobId j)
      then (if takeWhile (\<lambda>c. c \<noteq> CHR ''_'') (jobId j) = [] then None
            else Some (takeWhile (\<lambda>c. c \<noteq> CHR ''_'') (jobId j)))
      else (case arrayJobId j of None \<Rightarrow> None | Some i \<Rightarrow> if i = [] then None else Some i))"
  by (simp add: arrayIdOf_def str_includes_char split0_takeWhile)

lemma filter_is_distinct:
  "distinct xs \<Longrightarrow> filter (\<lambda>b. b = a \<and> Q b) xs = (if a \<in> set xs \<and> Q a then [a] else [])"
  by (induction xs) auto

lemma group_item_single: "group_item (a, [j]) = jobTreeItem j"
  by (simp add: group_item_def)

lemma group_item_parent:
  "length c \<noteq> 1 \<Longrightarrow>
   group_item (a, c) = newJobTreeItem ((hd c)\<lparr>arrayJobId := Some a\<rparr>) Collapsed True c"
  by (simp add: group_item_def)

lemma group_item_isArrayParent: "isArrayParent (group_item (a, c)) \<longleftrightarrow> length c \<noteq> 1"
  by (simp add: group_item_def newJobTreeItem_def jobTreeItem_def)

lemma group_item_arrayJobId:
  "length c \<noteq> 1 \<Longrightarrow> arrayJobId (job (group_item (a, c))) = Some a"
  by (simp add: group_item_def newJobTreeItem_def)

lemma jobTreeItem_fields: "\<not> isArrayParent (jobTreeItem j) \<and> job (jobTreeItem j) = j"
  by (simp add: jobTreeItem_def newJobTreeItem_def)

lemma parents_of_id:
  assumes "groupArrayJobs p"
  shows "filter (\<lambda>it. isArrayParent it \<and> arrayJobId (job it) = Some a) (getJobItems p js)
         = (if 2 \<le> length (spec_cluster js a)
            then [newJobTreeItem ((hd (spec_cluster js a))\<lparr>arrayJobId := Some a\<rparr>) Collapsed True
                    (spec_cluster js a)]
            else [])"
proof -
  let ?P = "\<lambda>it. isArrayParent it \<and> arrayJobId (job it) = Some a"
  have r: "filter ?P (map jobTreeItem (filter (\<lambda>j. arrayIdOf j = None) js)) = []"
    by (simp add: filter_empty_conv jobTreeItem_fields)
  have "\<And>b. ?P (group_item (b, spec_cluster js b)) \<longleftrightarrow> b = a \<and> length (spec_cluster js b) \<noteq> 1"
    by (auto simp: group_item_isArrayParent group_item_arrayJobId)
  then have "filter ?P (map (\<lambda>b. group_item (b, spec_cluster js b)) (spec_array_ids js))
      = map (\<lambda>b. group_item (b, spec_cluster js b))
          (filter (\<lambda>b. b = a \<and> length (spec_cluster js b) \<noteq> 1) (spec_array_ids js))"
    by (simp add: filter_map comp_def)
  also have "\<dots> = (if a \<in> set (spec_array_ids js) \<and> length (spec_cluster js a) \<noteq> 1
                    then [group_item (a, spec_cluster js a)] else [])"
    by (simp add: filter_is_distinct spec_array_ids_distinct)
  also have "\<dots> = (if 2 \<le> length (spec_cluster js a)
            then [newJobTreeItem ((hd (spec_cluster js a))\<lparr>arrayJobId := Some a\<rparr>) Collapsed True
                    (spec_cluster js a)]
            else [])"
  proof (cases "2 \<le> length (spec_cluster js a)")
    case True
    then have "spec_cluster js a \<noteq> []" "length (spec_cluster js a) \<noteq> 1" by auto
    with True show ?thesis by (simp add: spec_array_ids_set group_item_parent)
  next
    case False
    then have "length (spec_cluster js a) = 0 \<or> length (spec_cluster js a) = 1"
      by arith
    then have "spec_cluster js a = [] \<or> length (spec_cluster js a) = 1"
      by simp
    with False show ?thesis by (auto simp: spec_array_ids_set)
  qed
  finally show ?thesis using assms r by (simp add: getJobItems_grouped)
qed

lemma standalone_items:
  assumes "groupArrayJobs p" and "it \<in> set (getJobItems p js)" and "\<not> isArrayParent it"
  shows "it = jobTreeItem (job it)
         \<and> (arrayIdOf (job it) = None \<and> job it \<in> set js
            \<or> (\<exists>b. spec_cluster js b = [job it]))"
proof -
  from assms(1,2) consider
      (g) b where "b \<in> set (spec_array_ids js)" "it = group_item (b, spec_cluster js b)"
    | (r) j where "j \<in> set js" "arrayIdOf j = None" "it = jobTreeItem j"
    by (auto simp: getJobItems_grouped)
  then show ?thesis
  proof cases
    case g
    with assms(3) have "length (spec_cluster js b) = 1" by (simp add: group_item_isArrayParent)
    then obtain j where j: "spec_cluster js b = [j]"
      by (cases "spec_cluster js b") auto
    with g(2) have "it = jobTreeItem j" by (simp add: group_item_single)
    with j show ?thesis by (auto simp: jobTreeItem_fields)
  next
    case r
    then show ?thesis by (simp add: jobTreeItem_fields)
  qed
qed

lemma arrayIdOf_spec: "arrayIdOf j = spec_array_id j"
  by (simp add: arrayIdOf_eval spec_array_id_def)

lemma spec_tasks_cluster: "spec_tasks js a = spec_cluster js a"
  by (simp add: spec_tasks_def spec_cluster_def arrayIdOf_spec)

lemma jobTreeItem_record:
  "jobTreeItem j =
     \<lparr>label = or_else (Some (name j)) (jobId j), item_id = jobId j, job = j,
      collapsibleState = NoneState, isArrayParent = False, arrayTasks = []\<rparr>"
  by (simp add: jobTreeItem_def newJobTreeItem_def)

lemma parent_record:
  "a \<noteq> [] \<Longrightarrow>
   newJobTreeItem (j\<lparr>arrayJobId := Some a\<rparr>) Collapsed True c =
     \<lparr>label = or_else (Some (name j)) (jobId j), item_id = ''array-'' @ a,
      job = j\<lparr>arrayJobId := Some a\<rparr>, collapsibleState = Collapsed, isArrayParent = True,
      arrayTasks = c\<rparr>"
  by (simp add: newJobTreeItem_def)

lemma spec_cluster_id_nonempty: "spec_cluster js a \<noteq> [] \<Longrightarrow> a \<noteq> []"
proof -
  assume "spec_cluster js a \<noteq> []"
  then obtain j where "j \<in> set (spec_cluster js a)" by (cases "spec_cluster js a") auto
  then have "arrayIdOf j = Some a" by (simp add: spec_cluster_def)
  then show "a \<noteq> []" by (rule arrayIdOf_nonempty)
qed

lemma parent_items:
  assumes "groupArrayJobs p" and "it \<in> set (getJobItems p js)" and "isArrayParent it"
  shows "\<exists>a. 2 \<le> length (spec_cluster js a)
             \<and> it = newJobTreeItem ((hd (spec_cluster js a))\<lparr>arrayJobId := Some a\<rparr>) Collapsed True
                      (spec_cluster js a)"
proof -
  from assms(1,2) consider
      (g) b where "b \<in> set (spec_array_ids js)" "it = group_item (b, spec_cluster js b)"
    | (r) j where "it = jobTreeItem j"
    by (auto simp: getJobItems_grouped)
  then show ?thesis
  proof cases
    case g
    with assms(3) have n1: "length (spec_cluster js b) \<noteq> 1"
      by (simp add: group_item_isArrayParent)
    from g(1) have "spec_cluster js b \<noteq> []" by (simp add: spec_array_ids_set)
    then have "length (spec_cluster js b) \<noteq> 0" by simp
    with n1 have "2 \<le> length (spec_cluster js b)" by arith
    with g(2) n1 show ?thesis by (auto simp: group_item_parent)
  next
    case r
    with assms(3) show ?thesis by (simp add: jobTreeItem_fields)
  qed
qed

text \<open>
  C5. With array grouping enabled, and with the array id of a job being the text before
  the \<open>_\<close> of its job id or else its explicit \<open>arrayJobId\<close>: the jobs that share an array id
  and number at least two are shown as one parent item, which is collapsed and whose tasks
  are exactly those jobs in fetched order, and none of them is shown as an item of its own;
  a job that is alone with its array id is shown as a regular item, which has no tasks and
  cannot be expanded, and no parent is made for that id; a job with no array id is shown
  as a regular item; and every parent item is the collapsed parent of such a cluster of at
  least two jobs.
\<close>

theorem getJobItems_array_clusters:
  assumes "groupArrayJobs p"
  shows "(\<forall>a. 2 \<le> length (spec_tasks js a) \<longrightarrow>
            filter (\<lambda>it. isArrayParent it \<and> arrayJobId (job it) = Some a) (getJobItems p js)
              = [\<lparr>label = or_else (Some (name (hd (spec_tasks js a))))
                            (jobId (hd (spec_tasks js a))),
                   item_id = ''array-'' @ a,
                   job = (hd (spec_tasks js a))\<lparr>arrayJobId := Some a\<rparr>,
                   collapsibleState = Collapsed, isArrayParent = True,
                   arrayTasks = spec_tasks js a\<rparr>]
            \<and> (\<forall>it \<in> set (getJobItems p js).
                  \<not> isArrayParent it \<longrightarrow> job it \<notin> set (spec_tasks js a)))
       \<and> (\<forall>a j. spec_tasks js a = [j] \<longrightarrow>
            \<lparr>label = or_else (Some (name j)) (jobId j), item_id = jobId j, job = j,
             collapsibleState = NoneState, isArrayParent = False, arrayTasks = []\<rparr>
              \<in> set (getJobItems p js)
            \<and> (\<forall>it \<in> set (getJobItems p js).
                  isArrayParent it \<longrightarrow> arrayJobId (job it) \<noteq> Some a))
       \<and> (\<forall>j \<in> set js. spec_array_id j = None \<longrightarrow>
            \<lparr>label = or_else (Some (name j)) (jobId j), item_id = jobId j, job = j,
             collapsibleState = NoneState, isArrayParent = False, arrayTasks = []\<rparr>
              \<in> set (getJobItems p js))
       \<and> (\<forall>it \<in> set (getJobItems p js). isArrayParent it \<longrightarrow>
            collapsibleState it = Collapsed
            \<and> (\<exists>a. arrayTasks it = spec_tasks js a \<and> 2 \<le> length (spec_tasks js a)
                    \<and> arrayJobId (job it) = Some a))"
proof (intro conjI allI impI ballI)
  fix a assume big: "2 \<le> length (spec_tasks js a)"
  then have "spec_cluster js a \<noteq> []" by (auto simp: spec_tasks_cluster)
  then have "a \<noteq> []" by (rule spec_cluster_id_nonempty)
  with big show "filter (\<lambda>it. isArrayParent it \<and> arrayJobId (job it) = Some a) (getJobItems p js)
              = [\<lparr>label = or_else (Some (name (hd (spec_tasks js a))))
                            (jobId (hd (spec_tasks js a))),
                   item_id = ''array-'' @ a,
                   job = (hd (spec_tasks js a))\<lparr>arrayJobId := Some a\<rparr>,
                   collapsibleState = Collapsed, isArrayParent = True,
                   arrayTasks = spec_tasks js a\<rparr>]"
    using assms by (simp add: parents_of_id spec_tasks_cluster parent_record)
next
  fix a it
  assume big: "2 \<le> length (spec_tasks js a)"
    and it: "it \<in> set (getJobItems p js)" "\<not> isArrayParent it"
  from standalone_items [OF assms it]
  have "arrayIdOf (job it) = None \<or> (\<exists>b. spec_cluster js b = [job it])" by blast
  then have "job it \<notin> set (spec_cluster js a)"
  proof
    assume "arrayIdOf (job it) = None"
    then show ?thesis by (simp add: spec_cluster_def)
  next
    assume "\<exists>b. spec_cluster js b = [job it]"
    then obtain b where b: "spec_cluster js b = [job it]" ..
    then have "job it \<in> set (spec_cluster js b)" by simp
    then have "arrayIdOf (job it) = Some b" by (simp add: spec_cluster_def)
    moreover from b big have "b \<noteq> a" by (auto simp: spec_tasks_cluster)
    ultimately show ?thesis by (simp add: spec_cluster_def)
  qed
  then show "job it \<notin> set (spec_tasks js a)" by (simp add: spec_tasks_cluster)
next
  fix a j assume c: "spec_tasks js a = [j]"
  then have c': "spec_cluster js a = [j]" by (simp add: spec_tasks_cluster)
  then have "a \<in> set (spec_array_ids js)" by (simp add: spec_array_ids_set)
  then have "group_item (a, spec_cluster js a) \<in> set (getJobItems p js)"
    using assms by (simp add: getJobItems_grouped)
  with c' have "jobTreeItem j \<in> set (getJobItems p js)" by (simp add: group_item_single)
  then show "\<lparr>label = or_else (Some (name j)) (jobId j), item_id = jobId j, job = j,
             collapsibleState = NoneState, isArrayParent = False, arrayTasks = []\<rparr>
              \<in> set (getJobItems p js)"
    by (simp add: jobTreeItem_record)
next
  fix a j it
  assume c: "spec_tasks js a = [j]" and it: "it \<in> set (getJobItems p js)" "isArrayParent it"
  show "arrayJobId (job it) \<noteq> Some a"
  proof
    assume "arrayJobId (job it) = Some a"
    with it have "it \<in> set (filter (\<lambda>it. isArrayParent it \<and> arrayJobId (job it) = Some a)
                        (getJobItems p js))" by simp
    with c assms show False by (simp add: parents_of_id spec_tasks_cluster [symmetric])
  qed
next
  fix j assume "j \<in> set js" "spec_array_id j = None"
  then have "jobTreeItem j \<in> set (getJobItems p js)"
    using assms by (simp add: getJobItems_grouped arrayIdOf_spec)
  then show "\<lparr>label = or_else (Some (name j)) (jobId j), item_id = jobId j, job = j,
             collapsibleState = NoneState, isArrayParent = False, arrayTasks = []\<rparr>
              \<in> set (getJobItems p js)"
    by (simp add: jobTreeItem_record)
next
  fix it assume it: "it \<in> set (getJobItems p js)" "isArrayParent it"
  from parent_items [OF assms it] obtain a where
    a: "2 \<le> length (spec_cluster js a)"
       "it = newJobTreeItem ((hd (spec_cluster js a))\<lparr>arrayJobId := Some a\<rparr>) Collapsed True
               (spec_cluster js a)"
    by blast
  from a(2) show "collapsibleState it = Collapsed" by (simp add: newJobTreeItem_def)
  from a show "\<exists>a. arrayTasks it = spec_tasks js a \<and> 2 \<le> length (spec_tasks js a)
                    \<and> arrayJobId (job it) = Some a"
    by (auto simp: newJobTreeItem_def spec_tasks_cluster)
qed

theorem getJobItems_array_clusters_witness:
  "groupArrayJobs newProvider
   \<and> filter (\<lambda>it. isArrayParent it \<and> arrayJobId (job it) = Some ''12345'')
       (getJobItems newProvider
          [createMockJob ''12345_1'' ''RUNNING'',
           (createMockJob ''12346'' ''RUNNING'')\<lparr>arrayJobId := Some ''12345''\<rparr>,
           createMockJob ''12345_3'' ''PENDING'', createMockJob ''99999'' ''RUNNING'',
           createMockJob ''777_1'' ''RUNNING''])
     = [\<lparr>label = ''test_job'', item_id = ''array-12345'',
          job = (createMockJob ''12345_1'' ''RUNNING'')\<lparr>arrayJobId := Some ''12345''\<rparr>,
          collapsibleState = Collapsed, isArrayParent = True,
          arrayTasks =
            [createMockJob ''12345_1'' ''RUNNING'',
             (createMockJob ''12346'' ''RUNNING'')\<lparr>arrayJobId := Some ''12345''\<rparr>,
             createMockJob ''12345_3'' ''PENDING'']\<rparr>]
   \<and> \<lparr>label = ''test_job'', item_id = ''99999'', job = createMockJob ''99999'' ''RUNNING'',
       collapsibleState = NoneState, isArrayParent = False, arrayTasks = []\<rparr>
       \<in> set (getJobItems newProvider
          [createMockJob ''12345_1'' ''RUNNING'',
           (createMockJob ''12346'' ''RUNNING'')\<lparr>arrayJobId := Some ''12345''\<rparr>,
           createMockJob ''12345_3'' ''PENDING'', createMockJob ''99999'' ''RUNNING'',
           createMockJob ''777_1'' ''RUNNING''])
   \<and> \<lparr>label = ''test_job'', item_id = ''777_1'', job = createMockJob ''777_1'' ''RUNNING'',
       collapsibleState = NoneState, isArrayParent = False, arrayTasks = []\<rparr>
       \<in> set (getJobItems newProvider
          [createMockJob ''12345_1'' ''RUNNING'',
           (createMockJob ''12346'' ''RUNNING'')\<lparr>arrayJobId := Some ''12345''\<rparr>,
           createMockJob ''12345_3'' ''PENDING'', createMockJob ''99999'' ''RUNNING'',
           createMockJob ''777_1'' ''RUNNING''])"
proof -
  let ?js = "[createMockJob ''12345_1'' ''RUNNING'',
           (createMockJob ''12346'' ''RUNNING'')\<lparr>arrayJobId := Some ''12345''\<rparr>,
           createMockJob ''12345_3'' ''PENDING'', createMockJob ''99999'' ''RUNNING'',
           createMockJob ''777_1'' ''RUNNING'']"
  have g: "groupArrayJobs newProvider" by (simp add: newProvider_def)
  have c: "spec_tasks ?js ''12345''
      = [createMockJob ''12345_1'' ''RUNNING'',
         (createMockJob ''12346'' ''RUNNING'')\<lparr>arrayJobId := Some ''12345''\<rparr>,
         createMockJob ''12345_3'' ''PENDING'']"
    by (simp add: spec_tasks_def spec_array_id_def createMockJob_def)
  have s: "spec_tasks ?js ''777'' = [createMockJob ''777_1'' ''RUNNING'']"
    by (simp add: spec_tasks_def spec_array_id_def createMockJob_def)
  have n: "spec_array_id (createMockJob ''99999'' ''RUNNING'') = None"
    by (simp add: spec_array_id_def createMockJob_def)
  have f: "name (createMockJob ''12345_1'' ''RUNNING'') = ''test_job''
      \<and> name (createMockJob ''99999'' ''RUNNING'') = ''test_job''
      \<and> name (createMockJob ''777_1'' ''RUNNING'') = ''test_job''
      \<and> jobId (createMockJob ''99999'' ''RUNNING'') = ''99999''
      \<and> jobId (createMockJob ''777_1'' ''RUNNING'') = ''777_1''"
    by (simp add: createMockJob_def)
  note t = getJobItems_array_clusters [OF g, of ?js]
  from t c have p: "filter (\<lambda>it. isArrayParent it \<and> arrayJobId (job it) = Some ''12345'')
       (getJobItems newProvider ?js)
     = [\<lparr>label = ''test_job'', item_id = ''array-12345'',
          job = (createMockJob ''12345_1'' ''RUNNING'')\<lparr>arrayJobId := Some ''12345''\<rparr>,
          collapsibleState = Collapsed, isArrayParent = True,
          arrayTasks =
            [createMockJob ''12345_1'' ''RUNNING'',
             (createMockJob ''12346'' ''RUNNING'')\<lparr>arrayJobId := Some ''12345''\<rparr>,
             createMockJob ''12345_3'' ''PENDING'']\<rparr>]"
    using f by simp
  from t n have r: "\<lparr>label = ''test_job'', item_id = ''99999'',
       job = createMockJob ''99999'' ''RUNNING'',
       collapsibleState = NoneState, isArrayParent = False, arrayTasks = []\<rparr>
       \<in> set (getJobItems newProvider ?js)"
    using f by simp
  from t s have "\<lparr>label = or_else (Some (name (createMockJob ''777_1'' ''RUNNING'')))
                       (jobId (createMockJob ''777_1'' ''RUNNING'')),
       item_id = jobId (createMockJob ''777_1'' ''RUNNING''),
       job = createMockJob ''777_1'' ''RUNNING'',
       collapsibleState = NoneState, isArrayParent = False, arrayTasks = []\<rparr>
       \<in> set (getJobItems newProvider ?js)"
    by blast
  with f have o: "\<lparr>label = ''test_job'', item_id = ''777_1'',
       job = createMockJob ''777_1'' ''RUNNING'',
       collapsibleState = NoneState, isArrayParent = False, arrayTasks = []\<rparr>
       \<in> set (getJobItems newProvider ?js)"
    by simp
  from g p r o show ?thesis by simp
qed

text \<open>
  C6, as amended. With array grouping disabled the items of a category, and those of the
  flat list, show the jobs in the order of the fetched list. With array grouping enabled
  the jobs that have an array id are shown first, cluster by cluster in the order of the
  first job of each cluster and with the tasks of a cluster in fetched order, and the jobs
  without an array id follow in fetched order. The list \<open>js\<close> is the fetched list for the
  flat view and its jobs of one state for a category.
\<close>

theorem shown_jobs_order:
  "(\<not> groupArrayJobs p \<longrightarrow>
      concat (map shown_jobs (getJobItems p js)) = js \<and> map job (getJobItems p js) = js)
   \<and> (groupArrayJobs p \<longrightarrow>
        concat (map shown_jobs (getJobItems p js))
          = concat (map (spec_cluster js) (spec_array_ids js))
            @ filter (\<lambda>j. arrayIdOf j = None) js)
   \<and> (\<not> isLoading p \<and> lastError p = None \<and> jobs p \<noteq> [] \<and> \<not> groupByState p \<longrightarrow>
        getChildren p None = map JobItem (getJobItems p (jobs p)))
   \<and> (\<not> isLoading p \<and> lastError p = None \<longrightarrow>
        getChildren p (Some (CategoryItem c))
          = map JobItem (getJobItems p (filter (\<lambda>j. state j = cat_state c) (jobs p))))
   \<and> (\<not> isLoading p \<and> lastError p = None \<and> isArrayParent it \<longrightarrow>
        getChildren p (Some (JobItem it)) = map (\<lambda>t. JobItem (jobTreeItem t)) (arrayTasks it))"
proof -
  have flat: "\<not> groupArrayJobs p \<longrightarrow>
      concat (map shown_jobs (getJobItems p js)) = js \<and> map job (getJobItems p js) = js"
    by (simp add: getJobItems_def comp_def shown_jobs_def jobTreeItem_fields map_idI)
  have shown: "\<And>a. a \<in> set (spec_array_ids js) \<Longrightarrow>
      shown_jobs (group_item (a, spec_cluster js a)) = spec_cluster js a"
  proof -
    fix a assume "a \<in> set (spec_array_ids js)"
    then have ne: "spec_cluster js a \<noteq> []" by (simp add: spec_array_ids_set)
    show "shown_jobs (group_item (a, spec_cluster js a)) = spec_cluster js a"
    proof (cases "length (spec_cluster js a) = 1")
      case True
      then obtain j where "spec_cluster js a = [j]"
        by (cases "spec_cluster js a") auto
      then show ?thesis by (simp add: group_item_single shown_jobs_def jobTreeItem_fields)
    next
      case False
      then show ?thesis
        by (simp add: group_item_parent shown_jobs_def newJobTreeItem_def)
    qed
  qed
  have grouped: "groupArrayJobs p \<longrightarrow>
        concat (map shown_jobs (getJobItems p js))
          = concat (map (spec_cluster js) (spec_array_ids js))
            @ filter (\<lambda>j. arrayIdOf j = None) js"
  proof
    assume g: "groupArrayJobs p"
    have a: "map (\<lambda>a. shown_jobs (group_item (a, spec_cluster js a))) (spec_array_ids js)
            = map (spec_cluster js) (spec_array_ids js)"
      using shown by (intro map_cong) auto
    have b: "concat (map (\<lambda>j. shown_jobs (jobTreeItem j)) (filter (\<lambda>j. arrayIdOf j = None) js))
            = filter (\<lambda>j. arrayIdOf j = None) js"
      by (induction js) (simp_all add: shown_jobs_def jobTreeItem_fields)
    show "concat (map shown_jobs (getJobItems p js))
          = concat (map (spec_cluster js) (spec_array_ids js))
            @ filter (\<lambda>j. arrayIdOf j = None) js"
      using g by (simp add: getJobItems_grouped comp_def a b)
  qed
  have ch: "(\<not> isLoading p \<and> lastError p = None \<and> jobs p \<noteq> [] \<and> \<not> groupByState p \<longrightarrow>
        getChildren p None = map JobItem (getJobItems p (jobs p)))
   \<and> (\<not> isLoading p \<and> lastError p = None \<longrightarrow>
        getChildren p (Some (CategoryItem c))
          = map JobItem (getJobItems p (filter (\<lambda>j. state j = cat_state c) (jobs p))))
   \<and> (\<not> isLoading p \<and> lastError p = None \<and> isArrayParent it \<longrightarrow>
        getChildren p (Some (JobItem it)) = map (\<lambda>t. JobItem (jobTreeItem t)) (arrayTasks it))"
    by (simp add: getChildren_def getChildrenOf_def)
  from flat grouped ch show ?thesis by blast
qed

theorem shown_jobs_order_witness:
  "concat (map shown_jobs
     (getJobItems (toggleArrayGrouping newProvider)
        [createMockJob ''99999'' ''RUNNING'', createMockJob ''12345_1'' ''RUNNING'',
         createMockJob ''12345_2'' ''RUNNING'']))
   = [createMockJob ''99999'' ''RUNNING'', createMockJob ''12345_1'' ''RUNNING'',
      createMockJob ''12345_2'' ''RUNNING'']
   \<and> concat (map shown_jobs
     (getJobItems newProvider
        [createMockJob ''99999'' ''RUNNING'', createMockJob ''12345_1'' ''RUNNING'',
         createMockJob ''12345_2'' ''RUNNING'']))
   = [createMockJob ''12345_1'' ''RUNNING'', createMockJob ''12345_2'' ''RUNNING'',
      createMockJob ''99999'' ''RUNNING'']"
proof -
  let ?js = "[createMockJob ''99999'' ''RUNNING'', createMockJob ''12345_1'' ''RUNNING'',
         createMockJob ''12345_2'' ''RUNNING'']"
  have off: "\<not> groupArrayJobs (toggleArrayGrouping newProvider)"
    by (simp add: toggleArrayGrouping_def newProvider_def)
  have on: "groupArrayJobs newProvider" by (simp add: newProvider_def)
  have ids: "spec_array_ids ?js = [''12345'']"
    by (simp add: spec_array_ids_def map_filter_simps arrayIdOf_eval createMockJob_def)
  have c: "spec_cluster ?js ''12345''
      = [createMockJob ''12345_1'' ''RUNNING'', createMockJob ''12345_2'' ''RUNNING'']"
    by (simp add: spec_cluster_def arrayIdOf_eval createMockJob_def)
  have r: "filter (\<lambda>j. arrayIdOf j = None) ?js = [createMockJob ''99999'' ''RUNNING'']"
    by (simp add: arrayIdOf_eval createMockJob_def)
  from shown_jobs_order [of "toggleArrayGrouping newProvider" ?js] off
    shown_jobs_order [of newProvider ?js] on ids c r
  show ?thesis by simp
qed

text \<open>
  C6 as stated promises the fetched order under every setting. Under the settings a
  provider starts with, the RUNNING category of a list that holds a job without an array id
  followed by an array task shows the array task first.
\<close>

theorem shown_jobs_reordered_counterexample:
  "getChildren
     (newProvider\<lparr>jobs := [createMockJob ''99999'' ''RUNNING'',
                            createMockJob ''12345_1'' ''RUNNING'']\<rparr>)
     (Some (CategoryItem \<lparr>cat_state = ''RUNNING'', cat_count = 2\<rparr>))
   = [JobItem (jobTreeItem (createMockJob ''12345_1'' ''RUNNING'')),
      JobItem (jobTreeItem (createMockJob ''99999'' ''RUNNING''))]"
proof -
  let ?js = "[createMockJob ''99999'' ''RUNNING'', createMockJob ''12345_1'' ''RUNNING'']"
  let ?p = "newProvider\<lparr>jobs := ?js\<rparr>"
  have on: "groupArrayJobs ?p" by (simp add: newProvider_def)
  have st: "filter (\<lambda>j. state j = ''RUNNING'') ?js = ?js"
    by (simp add: createMockJob_def)
  have ids: "spec_array_ids ?js = [''12345'']"
    by (simp add: spec_array_ids_def map_filter_simps arrayIdOf_eval createMockJob_def)
  have c: "spec_cluster ?js ''12345'' = [createMockJob ''12345_1'' ''RUNNING'']"
    by (simp add: spec_cluster_def arrayIdOf_eval createMockJob_def)
  have r: "filter (\<lambda>j. arrayIdOf j = None) ?js = [createMockJob ''99999'' ''RUNNING'']"
    by (simp add: arrayIdOf_eval createMockJob_def)
  have "getJobItems ?p ?js
          = [jobTreeItem (createMockJob ''12345_1'' ''RUNNING''),
             jobTreeItem (createMockJob ''99999'' ''RUNNING'')]"
    using ids c r by (simp add: getJobItems_grouped [OF on] group_item_single)
  moreover have "getChildren ?p (Some (CategoryItem \<lparr>cat_state = ''RUNNING'', cat_count = 2\<rparr>))
          = map JobItem (getJobItems ?p (filter (\<lambda>j. state j = ''RUNNING'') ?js))"
    by (simp add: getChildren_def getChildrenOf_def newProvider_def)
  ultimately show ?thesis by (simp only: st list.map)
qed

section \<open>Properties of the cancellation\<close>

text \<open>
  C10, as amended. \<open>cancelJob\<close> returns \<open>true\<close> when the command succeeded. When the command
  failed, the text that \<open>cancelJob\<close> tests is the trimmed \<open>stderr\<close> of the command or, when
  that is absent or empty, the message of the error. It throws with that text when the text
  is non-empty: a failure with an empty \<open>stderr\<close> still throws, with the message of the
  error. A failure is reported as a successful cancellation only when the message of the
  error is empty as well.
\<close>

theorem cancelJob_failure_text:
  "cancelJob job_id (Resolved out err) = Inr True
   \<and> (\<forall>t. err_stderr e = Some t \<and> trim t \<noteq> [] \<longrightarrow>
          cancelJob job_id (Rejected e)
            = Inl (Error (''Failed to cancel job '' @ job_id @ '': '' @ trim t)))
   \<and> ((err_stderr e = None \<or> (\<exists>t. err_stderr e = Some t \<and> trim t = []))
        \<and> err_message e \<noteq> [] \<longrightarrow>
          cancelJob job_id (Rejected e)
            = Inl (Error (''Failed to cancel job '' @ job_id @ '': '' @ err_message e)))
   \<and> ((err_stderr e = None \<or> (\<exists>t. err_stderr e = Some t \<and> trim t = []))
        \<and> err_message e = [] \<longrightarrow>
          cancelJob job_id (Rejected e) = Inr True)"
proof (cases "err_stderr e")
  case None
  then show ?thesis by (simp add: cancelJob_def)
next
  case (Some t)
  then show ?thesis by (simp add: cancelJob_def)
qed

theorem cancelJob_failure_text_witness:
  "cancelJob ''99999''
     (Rejected \<lparr>err_stdout = None, err_stderr = Some ''Job not found '', err_message = [],
                err_code = Some 1\<rparr>)
     = Inl (Error ''Failed to cancel job 99999: Job not found'')
   \<and> cancelJob ''12345''
       (Rejected \<lparr>err_stdout = Some [], err_stderr = Some [],
                  err_message = ''Command failed: scancel 12345'', err_code = Some 1\<rparr>)
     = Inl (Error ''Failed to cancel job 12345: Command failed: scancel 12345'')
   \<and> cancelJob ''12345''
       (Rejected \<lparr>err_stdout = None, err_stderr = None, err_message = [], err_code = None\<rparr>)
     = Inr True"
proof -
  have t: "trim ''Job not found '' = ''Job not found''"
    by (simp add: trim_def isWhiteSpace_def)
  have e: "trim [] = []" by (simp add: trim_def)
  from t e
    cancelJob_failure_text
      [of "''99999''" _ _
        "\<lparr>err_stdout = None, err_stderr = Some ''Job not found '', err_message = [],
          err_code = Some 1\<rparr>"]
    cancelJob_failure_text
      [of "''12345''" _ _
        "\<lparr>err_stdout = Some [], err_stderr = Some [],
          err_message = ''Command failed: scancel 12345'', err_code = Some 1\<rparr>"]
    cancelJob_failure_text
      [of "''12345''" _ _
        "\<lparr>err_stdout = None, err_stderr = None, err_message = [], err_code = None\<rparr>"]
  show ?thesis by simp
qed

text \<open>
  C10 as stated has a failure with an empty \<open>stderr\<close> reported as a success. The command
  below fails with an empty \<open>stderr\<close>, and \<open>cancelJob\<close> throws with the message of the error.
\<close>

theorem cancelJob_silent_failure_counterexample:
  "cancelJob ''12345''
     (Rejected \<lparr>err_stdout = Some [], err_stderr = Some [],
                err_message = ''Command failed: scancel 12345'', err_code = Some 1\<rparr>)
   = Inl (Error ''Failed to cancel job 12345: Command failed: scancel 12345'')"
  by (simp add: cancelJob_def trim_def)

section \<open>Properties of the notifications\<close>






















end
